theory Spec2Isabelle
  imports Main "HOL-Library.AList"
begin

section \<open>Python values\<close>

text \<open>
  The agent and the analyzer handle JSON-shaped Python values: \<open>None\<close>, booleans, integers,
  strings, lists and dictionaries. A dictionary is an association list in insertion order
  (Python keeps that order; \<open>AList.update\<close> replaces the value of an existing key in place and
  appends a new key at the end, as \<open>dict.update\<close> does). Numbers are Python's unbounded
  integers; floating-point numbers are outside this model. A string is a sequence of
  characters, one \<open>char\<close> for one code point below 256.

  An instant (\<open>datetime\<close>) is the count of microseconds since \<open>datetime.min\<close>
  (0001-01-01T00:00:00), microseconds being the resolution of \<open>datetime\<close>; the last
  instant, \<open>datetime.max\<close>, is 9999-12-31T23:59:59.999999. A duration
  (\<open>timedelta\<close>) is an integer count of microseconds.
\<close>

type_synonym time = int

definition datetime_max :: time where
  "datetime_max = 315537897599999999"

definition instant_ok :: "time \<Rightarrow> bool" where
  "instant_ok t = (0 \<le> t \<and> t \<le> datetime_max)"

datatype json =
    JNull
  | JBool bool
  | JInt int
  | JStr string
  | JList "json list"
  | JDict "(string \<times> json) list"

text \<open>
  Exceptions that travel through the modelled code. \<open>AttributeError\<close> and \<open>TypeError\<close> are
  raised by the interpreter (a method looked up on a value that has none, a value of the wrong
  type); \<open>OverflowError\<close> is raised by the arithmetic of \<open>datetime\<close> and
  \<open>timedelta\<close>; \<open>Raised m\<close> is any other subclass of \<open>Exception\<close> raised by a
  collaborator, with \<open>str(e) = m\<close>; \<open>KeyboardInterrupt\<close> derives from
  \<open>BaseException\<close> only, so \<open>except Exception\<close> does not catch it.
\<close>

datatype exn = AttributeError | TypeError | OverflowError | Raised string | KeyboardInterrupt

definition is_Exception :: "exn \<Rightarrow> bool" where
  "is_Exception e = (e \<noteq> KeyboardInterrupt)"

text \<open>Truth value of a value, as \<open>if v:\<close> tests it.\<close>

fun truthy :: "json \<Rightarrow> bool" where
  "truthy JNull = False"
| "truthy (JBool b) = b"
| "truthy (JInt n) = (n \<noteq> 0)"
| "truthy (JStr s) = (s \<noteq> [])"
| "truthy (JList xs) = (xs \<noteq> [])"
| "truthy (JDict kvs) = (kvs \<noteq> [])"

text \<open>\<open>v == n\<close> for an integer \<open>n\<close>: \<open>bool\<close> is a subclass of \<open>int\<close> (\<open>True == 1\<close>).\<close>

fun eq_int :: "json \<Rightarrow> int \<Rightarrow> bool" where
  "eq_int (JInt m) n = (m = n)"
| "eq_int (JBool b) n = ((if b then 1 else 0) = n)"
| "eq_int _ n = False"

text \<open>The numeric value of a number, for \<open>==\<close> between values.\<close>

fun num_of :: "json \<Rightarrow> int option" where
  "num_of (JBool b) = Some (if b then 1 else 0)"
| "num_of (JInt n) = Some n"
| "num_of _ = None"

text \<open>
  \<open>a == b\<close>: numbers by value, strings by content, lists element by element, dictionaries
  as sets of items whatever the order.
\<close>

fun py_eq :: "json \<Rightarrow> json \<Rightarrow> bool"
  and py_eq_list :: "json list \<Rightarrow> json list \<Rightarrow> bool"
  and py_sub_dict :: "(string \<times> json) list \<Rightarrow> (string \<times> json) list \<Rightarrow> bool" where
  "py_eq (JList xs) b = (case b of JList ys \<Rightarrow> py_eq_list xs ys | _ \<Rightarrow> False)"
| "py_eq (JDict kvs) b =
     (case b of JDict kvs' \<Rightarrow> length kvs = length kvs' \<and> py_sub_dict kvs kvs' | _ \<Rightarrow> False)"
| "py_eq (JStr s) b = (b = JStr s)"
| "py_eq JNull b = (b = JNull)"
| "py_eq (JBool x) b = (num_of b = Some (if x then 1 else 0))"
| "py_eq (JInt x) b = (num_of b = Some x)"
| "py_eq_list [] ys = (ys = [])"
| "py_eq_list (x # xs) ys =
     (case ys of [] \<Rightarrow> False | y # ys' \<Rightarrow> py_eq x y \<and> py_eq_list xs ys')"
| "py_sub_dict [] kvs' = True"
| "py_sub_dict ((k, v) # kvs) kvs' =
     (case map_of kvs' k of None \<Rightarrow> False | Some v' \<Rightarrow> py_eq v v' \<and> py_sub_dict kvs kvs')"

text \<open>\<open>obj.get(k, dflt)\<close>: only a dictionary has the method.\<close>

definition py_get :: "json \<Rightarrow> string \<Rightarrow> json \<Rightarrow> exn + json" where
  "py_get obj k dflt =
     (case obj of
        JDict kvs \<Rightarrow> Inr (case map_of kvs k of Some v \<Rightarrow> v | None \<Rightarrow> dflt)
      | _ \<Rightarrow> Inl AttributeError)"

text \<open>\<open>str(n)\<close> for an integer.\<close>

fun digits :: "nat \<Rightarrow> string" where
  "digits n =
     (if n < 10 then [''0123456789'' ! n]
      else digits (n div 10) @ [''0123456789'' ! (n mod 10)])"

declare digits.simps [simp del]

definition str_int :: "int \<Rightarrow> string" where
  "str_int i = (if i < 0 then CHR ''-'' # digits (nat (- i)) else digits (nat i))"

section \<open>The state of one agent process\<close>

text \<open>
  \<open>Config\<close> (core/config.py): the attributes the modelled code reads. The two intervals
  hold whatever the configuration file or a server update supplied.
\<close>

record config =
  api_base_url :: string
  manager_id :: string
  machine_id :: string
  machine_name :: string
  scan_interval_minutes :: json
  check_interval :: json

text \<open>
  A log record is its level and its message; a message built by an f-string is kept as its
  parts, the literal text and the interpolated values, in order.
\<close>

datatype level = DEBUG | INFO | WARNING | ERROR

datatype fpart =
    Lit string
  | Val json
  | Num int
  | Instant "time option"
  | Exc exn
  | Names "string list"

text \<open>
  Calls made to collaborators, in order: the HTTP session, the scanners, the sleep, the
  configuration file, the standard output; and the entries into \<open>send_scan_data\<close> and
  \<open>mark_scan_completed\<close>, recorded so that calls can be counted.
\<close>

datatype call =
    HttpRequest string string "json option"
  | ScannerScan string
  | SendScanData "(string \<times> json) list"
  | MarkScanCompleted
  | Sleep json
  | SaveConfig config
  | Print "fpart list"

text \<open>
  \<open>ScannerAgent\<close>, \<open>ScanScheduler\<close> and \<open>APIClient\<close> hold one \<open>Config\<close> object by
  reference and log to the same handlers, so the process state is one record: the shared
  configuration, the scheduler's two instants, the names of the loaded scanners (in
  insertion order), the log and the calls made.
\<close>

record agent =
  config :: config
  last_scan_time :: "time option"
  next_scan_time :: "time option"
  scanners :: "string list"
  log :: "(level \<times> fpart list) list"
  calls :: "call list"

definition log_msg :: "level \<Rightarrow> fpart list \<Rightarrow> agent \<Rightarrow> agent" where
  "log_msg l m s = s\<lparr>log := log s @ [(l, m)]\<rparr>"

definition do_call :: "call \<Rightarrow> agent \<Rightarrow> agent" where
  "do_call c s = s\<lparr>calls := calls s @ [c]\<rparr>"

section \<open>Scan scheduler (core/scheduler.py)\<close>

text \<open>
  \<open>timedelta(minutes=v)\<close> in microseconds: a value that is not a number raises
  \<open>TypeError\<close>; a number gives a duration when its whole days (rounded down) are at most
  999999999 in magnitude, and raises \<open>OverflowError\<close> otherwise.
\<close>

definition timedelta_minutes :: "json \<Rightarrow> exn + int" where
  "timedelta_minutes v =
     (case num_of v of
        None \<Rightarrow> Inl TypeError
      | Some n \<Rightarrow>
          if - 999999999 \<le> (n * 60000000) div 86400000000 \<and>
             (n * 60000000) div 86400000000 \<le> 999999999
          then Inr (n * 60000000)
          else Inl OverflowError)"

text \<open>
  \<open>t + d\<close> for an instant and a duration: \<open>OverflowError\<close> when the sum is not an
  instant between \<open>datetime.min\<close> and \<open>datetime.max\<close>.
\<close>

definition datetime_add :: "time \<Rightarrow> int \<Rightarrow> exn + time" where
  "datetime_add t d = (if instant_ok (t + d) then Inr (t + d) else Inl OverflowError)"

text \<open>
  Every operation takes \<open>now\<close>, what \<open>datetime.now()\<close> returns during the call (each
  operation reads the clock at most once). An operation returns its result, or the exception
  it raises, together with the state it leaves.
\<close>

definition calculate_next_scan :: "time \<Rightarrow> agent \<Rightarrow> (exn + unit) \<times> agent" where
  "calculate_next_scan now s =
     (case last_scan_time s of
        None \<Rightarrow>
          (Inr (), log_msg DEBUG [Lit (''Pr'' @ [CHR 0xF3] @ ''ximo escaneo programado para: ''),
                                 Instant (Some now)]
                     (s\<lparr>next_scan_time := Some now\<rparr>))
      | Some l \<Rightarrow>
          (case timedelta_minutes (scan_interval_minutes (config s)) of
             Inl e \<Rightarrow> (Inl e, s)
           | Inr interval \<Rightarrow>
               (case datetime_add l interval of
                  Inl e \<Rightarrow> (Inl e, s)
                | Inr next_scan \<Rightarrow>
                    (Inr (), log_msg DEBUG
                               [Lit (''Pr'' @ [CHR 0xF3] @ ''ximo escaneo programado para: ''),
                                Instant (Some next_scan)]
                               (s\<lparr>next_scan_time := Some next_scan\<rparr>)))))"

text \<open>\<open>ScanScheduler.__init__\<close>, on the state that holds the configuration.\<close>

definition scheduler_init :: "time \<Rightarrow> agent \<Rightarrow> agent" where
  "scheduler_init now s =
     snd (calculate_next_scan now (s\<lparr>last_scan_time := None, next_scan_time := None\<rparr>))"

definition should_scan :: "time \<Rightarrow> agent \<Rightarrow> bool \<times> agent" where
  "should_scan now s =
     (case next_scan_time s of
        None \<Rightarrow> (True, s)
      | Some n \<Rightarrow>
          if now \<ge> n
          then (True, log_msg INFO [Lit ''Es hora de realizar un escaneo programado''] s)
          else (False, s))"

definition mark_scan_completed :: "time \<Rightarrow> agent \<Rightarrow> (exn + unit) \<times> agent" where
  "mark_scan_completed now s =
     (case calculate_next_scan now (do_call MarkScanCompleted s\<lparr>last_scan_time := Some now\<rparr>) of
        (Inl e, s') \<Rightarrow> (Inl e, s')
      | (Inr u, s') \<Rightarrow>
          (Inr (), log_msg INFO [Lit (''Escaneo completado. Pr'' @ [CHR 0xF3] @ ''ximo escaneo: ''),
                                Instant (next_scan_time s')] s'))"

definition force_next_scan :: "time \<Rightarrow> agent \<Rightarrow> agent" where
  "force_next_scan now s =
     log_msg INFO [Lit (''Escaneo forzado para ejecuci'' @ [CHR 0xF3] @ ''n inmediata'')]
       (s\<lparr>next_scan_time := Some now\<rparr>)"

definition update_interval :: "int \<Rightarrow> time \<Rightarrow> agent \<Rightarrow> (exn + unit) \<times> agent" where
  "update_interval new_interval_minutes now s =
     (let old_interval = scan_interval_minutes (config s);
          s1 = s\<lparr>config := (config s)\<lparr>scan_interval_minutes := JInt new_interval_minutes\<rparr>\<rparr>
      in case calculate_next_scan now s1 of
           (Inl e, s') \<Rightarrow> (Inl e, s')
         | (Inr u, s') \<Rightarrow>
             (Inr (), log_msg INFO [Lit ''Intervalo de escaneo actualizado de '', Val old_interval,
                                   Lit '' a '', Num new_interval_minutes, Lit '' minutos''] s'))"

text \<open>
  Sequences of the three mutating operations, each with the clock reading of its call.
\<close>

datatype sched_op = MarkCompleted | ForceNext | UpdateInterval int

definition apply_op :: "sched_op \<Rightarrow> time \<Rightarrow> agent \<Rightarrow> agent" where
  "apply_op opn now s =
     (case opn of
        MarkCompleted \<Rightarrow> snd (mark_scan_completed now s)
      | ForceNext \<Rightarrow> force_next_scan now s
      | UpdateInterval n \<Rightarrow> snd (update_interval n now s))"

fun run_ops :: "(sched_op \<times> time) list \<Rightarrow> agent \<Rightarrow> agent" where
  "run_ops [] s = s"
| "run_ops ((opn, now) # rest) s = run_ops rest (apply_op opn now s)"

text \<open>
  The invariant as the specification words it, at current time \<open>now\<close>: the next scan is
  the last scan plus the interval when there is a last scan, and \<open>now\<close> otherwise.
\<close>

definition spec_invariant :: "time \<Rightarrow> agent \<Rightarrow> bool" where
  "spec_invariant now s =
     (case last_scan_time s of
        Some l \<Rightarrow>
          (case timedelta_minutes (scan_interval_minutes (config s)) of
             Inr interval \<Rightarrow> next_scan_time s = Some (l + interval)
           | Inl e \<Rightarrow> False)
      | None \<Rightarrow> next_scan_time s = Some now)"

text \<open>
  What the operations maintain: \<open>forced\<close> tells whether the latest operation was
  \<open>force_next_scan\<close>, \<open>t\<close> is the clock reading of the latest operation (of the
  initialization when there was none).
\<close>

definition sched_invariant :: "bool \<Rightarrow> time \<Rightarrow> agent \<Rightarrow> bool" where
  "sched_invariant forced t s =
     (if forced then next_scan_time s = Some t
      else (case last_scan_time s of
              Some l \<Rightarrow>
                (case timedelta_minutes (scan_interval_minutes (config s)) of
                   Inr interval \<Rightarrow> next_scan_time s = Some (l + interval)
                 | Inl e \<Rightarrow> False)
            | None \<Rightarrow> next_scan_time s = Some t))"

text \<open>
  Whether an operation returns (raises nothing) in a state, and whether the latest operation
  of a sequence did (\<open>r\<close> when the sequence is empty).
\<close>

definition op_returns :: "sched_op \<Rightarrow> time \<Rightarrow> agent \<Rightarrow> bool" where
  "op_returns opn now s =
     (case opn of
        MarkCompleted \<Rightarrow> fst (mark_scan_completed now s) = Inr ()
      | ForceNext \<Rightarrow> True
      | UpdateInterval n \<Rightarrow> fst (update_interval n now s) = Inr ())"

fun final_returned :: "bool \<Rightarrow> (sched_op \<times> time) list \<Rightarrow> agent \<Rightarrow> bool" where
  "final_returned r [] s = r"
| "final_returned r ((opn, now) # rest) s =
     final_returned (op_returns opn now s) rest (apply_op opn now s)"

fun final_forced :: "bool \<Rightarrow> (sched_op \<times> time) list \<Rightarrow> bool" where
  "final_forced f [] = f"
| "final_forced f ((opn, now) # rest) = final_forced (opn = ForceNext) rest"

fun final_time :: "time \<Rightarrow> (sched_op \<times> time) list \<Rightarrow> time" where
  "final_time t [] = t"
| "final_time t ((opn, now) # rest) = final_time now rest"

section \<open>Remote client (core/api_client.py)\<close>

text \<open>
  What happens inside the \<open>try\<close> block of \<open>_make_request\<close>, given by the network:
  a response, with its status, its text and what \<open>json.loads\<close> does on the text (the
  code calls it only when the status is 200); an \<open>aiohttp.ClientError\<close> with its
  \<open>str(e)\<close>; any other subclass of \<open>Exception\<close> (a timeout, for instance) with its
  \<open>str(e)\<close>; or a \<open>KeyboardInterrupt\<close>, which no handler of the client catches.

  \<open>json.loads\<close> returns a value, raises \<open>JSONDecodeError\<close>, or raises another
  subclass of \<open>Exception\<close> with some \<open>str(e)\<close> (\<open>RecursionError\<close> on deeply
  nested text, \<open>ValueError\<close> on an integer of too many digits).
\<close>

datatype loads = Loaded json | JSONDecodeError | LoadsRaised string

datatype outcome =
    Response int string loads
  | ClientFailure string
  | OtherFailure string
  | Interrupted

text \<open>
  \<open>_make_request\<close>. The call recorded is the request the client sets out to make: the
  method, the full URL and the JSON body (passed only when \<open>data\<close> is truthy).
\<close>

definition make_request ::
  "string \<Rightarrow> string \<Rightarrow> json option \<Rightarrow> outcome \<Rightarrow> agent \<Rightarrow> (exn + json) \<times> agent" where
  "make_request method endpoint data oc s =
     (let url = api_base_url (config s) @ endpoint;
          kwargs = (case data of None \<Rightarrow> None | Some d \<Rightarrow> if truthy d then Some d else None);
          s1 = do_call (HttpRequest method url kwargs) s
      in case oc of
           Response status response_text parsed \<Rightarrow>
             if status = 200 then
               (case parsed of
                  Loaded body \<Rightarrow> (Inr body, s1)
                | JSONDecodeError \<Rightarrow>
                    (Inr (JDict [(''success'', JBool True), (''data'', JStr response_text)]), s1)
                | LoadsRaised m \<Rightarrow>
                    (Inr (JDict [(''success'', JBool False),
                                 (''error'', JStr (''Error inesperado: '' @ m))]),
                     log_msg ERROR [Lit ''Error inesperado: '', Lit m] s1))
             else
               (Inr (JDict [(''success'', JBool False),
                            (''error'', JStr (''HTTP '' @ str_int status @ '': '' @ response_text)),
                            (''status_code'', JInt status)]),
                log_msg ERROR [Lit ''Error HTTP '', Num status, Lit '': '', Lit response_text] s1)
         | ClientFailure m \<Rightarrow>
             (Inr (JDict [(''success'', JBool False),
                          (''error'', JStr (''Error de conexi'' @ [CHR 0xF3] @ ''n: '' @ m))]),
              log_msg ERROR [Lit (''Error de conexi'' @ [CHR 0xF3] @ ''n: ''), Lit m] s1)
         | OtherFailure m \<Rightarrow>
             (Inr (JDict [(''success'', JBool False),
                          (''error'', JStr (''Error inesperado: '' @ m))]),
              log_msg ERROR [Lit ''Error inesperado: '', Lit m] s1)
         | Interrupted \<Rightarrow> (Inl KeyboardInterrupt, s1))"

text \<open>
  \<open>send_scan_data\<close> updates the dictionary it is given, in place; the model returns the
  result (or the exception), the dictionary as the call leaves it, and the state.
\<close>

definition send_scan_data ::
  "(string \<times> json) list \<Rightarrow> outcome \<Rightarrow> agent \<Rightarrow>
     (exn + json) \<times> (string \<times> json) list \<times> agent" where
  "send_scan_data scan_data oc s =
     (let s1 = log_msg INFO [Lit ''Enviando datos de escaneo al servidor'']
                 (do_call (SendScanData scan_data) s);
          scan_data' =
            AList.update ''machine_name'' (JStr (machine_name (config s)))
              (AList.update ''machine_id'' (JStr (machine_id (config s)))
                (AList.update ''manager_id'' (JStr (manager_id (config s))) scan_data))
      in case make_request ''POST'' ''/scans'' (Some (JDict scan_data')) oc s1 of
           (Inl e, s2) \<Rightarrow> (Inl e, scan_data', s2)
         | (Inr response, s2) \<Rightarrow>
             (case py_get response ''success'' JNull of
                Inl e \<Rightarrow> (Inl e, scan_data', s2)
              | Inr ok \<Rightarrow>
                  if truthy ok
                  then (Inr response, scan_data',
                        log_msg INFO [Lit ''Datos de escaneo enviados exitosamente''] s2)
                  else (case py_get response ''error'' JNull of
                          Inl e \<Rightarrow> (Inl e, scan_data', s2)
                        | Inr err \<Rightarrow>
                            (Inr response, scan_data',
                             log_msg ERROR [Lit ''Error al enviar datos: '', Val err] s2))))"

definition check_tasks :: "outcome \<Rightarrow> agent \<Rightarrow> (exn + json) \<times> agent" where
  "check_tasks oc s =
     (case make_request ''GET'' ''/agent/check-task'' None oc
             (log_msg DEBUG [Lit ''Verificando tareas pendientes''] s) of
        (Inl e, s2) \<Rightarrow> (Inl e, s2)
      | (Inr response, s2) \<Rightarrow>
          (case py_get response ''success'' JNull of
             Inl e \<Rightarrow> (Inl e, s2)
           | Inr ok \<Rightarrow>
               if truthy ok
               then (Inr response,
                     log_msg DEBUG [Lit (''Verificaci'' @ [CHR 0xF3] @ ''n de tareas completada'')] s2)
               else (case py_get response ''error'' JNull of
                       Inl e \<Rightarrow> (Inl e, s2)
                     | Inr err \<Rightarrow>
                         (Inr response,
                          log_msg WARNING [Lit ''Error al verificar tareas: '', Val err] s2))))"



text \<open>
  Readings of a result, as the callers make them: \<open>response.get('success')\<close> taken as a
  condition, and the \<open>status_code\<close> entry.
\<close>

definition success_check :: "json \<Rightarrow> bool" where
  "success_check response =
     (case py_get response ''success'' JNull of Inr ok \<Rightarrow> truthy ok | Inl e \<Rightarrow> False)"

definition entry :: "string \<Rightarrow> json \<Rightarrow> json option" where
  "entry k v = (case v of JDict kvs \<Rightarrow> map_of kvs k | _ \<Rightarrow> None)"


text \<open>
  A tagged result, as the specification has it: a dictionary whose \<open>success\<close> entry is a
  boolean.
\<close>

definition tagged :: "json \<Rightarrow> bool" where
  "tagged v = (case entry ''success'' v of Some (JBool b) \<Rightarrow> True | _ \<Rightarrow> False)"

text \<open>
  A body as the handler of \<open>/agent/check-task\<close> in this repository's server builds it
  (api-server/app/routers/agent.py), as text and parsed.
\<close>

definition check_task_text :: string where
  \<open>check_task_text =
     ''{"has_task":false,"task_type":null,"scan_interval":3600,'' @
     ''"immediate_scan":false,"config_update":null}''\<close>

definition check_task_body :: json where
  "check_task_body =
     JDict [(''has_task'', JBool False), (''task_type'', JNull), (''scan_interval'', JInt 3600),
            (''immediate_scan'', JBool False), (''config_update'', JNull)]"

section \<open>Configuration updates (core/config.py)\<close>

text \<open>\<open>p in s\<close> for two strings: \<open>p\<close> occurs in \<open>s\<close> as a contiguous run.\<close>

fun starts_with :: "string \<Rightarrow> string \<Rightarrow> bool" where
  "starts_with s [] = True"
| "starts_with [] (c # p) = False"
| "starts_with (a # s) (c # p) = (a = c \<and> starts_with s p)"

fun py_in_str :: "string \<Rightarrow> string \<Rightarrow> bool" where
  "py_in_str p [] = (p = [])"
| "py_in_str p (a # s) = (starts_with (a # s) p \<or> py_in_str p s)"

text \<open>
  \<open>k in v\<close> for a string \<open>k\<close>: a key of a dictionary, an element of a list, a
  substring of a string; any other value raises \<open>TypeError\<close>.
\<close>

definition py_contains :: "string \<Rightarrow> json \<Rightarrow> exn + bool" where
  "py_contains k v =
     (case v of
        JDict kvs \<Rightarrow> Inr (map_of kvs k \<noteq> None)
      | JList xs \<Rightarrow> Inr (JStr k \<in> set xs)
      | JStr t \<Rightarrow> Inr (py_in_str k t)
      | _ \<Rightarrow> Inl TypeError)"

text \<open>\<open>v[k]\<close> for a string \<open>k\<close>: only a dictionary can be indexed by a string.\<close>

definition py_subscript :: "json \<Rightarrow> string \<Rightarrow> exn + json" where
  "py_subscript v k =
     (case v of
        JDict kvs \<Rightarrow> (case map_of kvs k of Some x \<Rightarrow> Inr x | None \<Rightarrow> Inl (Raised ''KeyError''))
      | _ \<Rightarrow> Inl TypeError)"

text \<open>
  One field of \<open>Config.update_from_server\<close>: \<open>if k in server_config:\<close> and then
  \<open>server_config[k]\<close>; \<open>None\<close> when the key is absent.
\<close>

definition server_value :: "string \<Rightarrow> json \<Rightarrow> exn + json option" where
  "server_value k server_config =
     (case py_contains k server_config of
        Inl e \<Rightarrow> Inl e
      | Inr present \<Rightarrow>
          if present
          then (case py_subscript server_config k of Inl e \<Rightarrow> Inl e | Inr v \<Rightarrow> Inr (Some v))
          else Inr None)"

text \<open>
  \<open>Config.update_from_server\<close>; \<open>save_config\<close> writes the configuration file and
  catches its own exceptions.
\<close>

definition update_from_server :: "json \<Rightarrow> agent \<Rightarrow> (exn + unit) \<times> agent" where
  "update_from_server server_config s =
     (case server_value ''scan_interval_minutes'' server_config of
        Inl e \<Rightarrow> (Inl e, s)
      | Inr v1 \<Rightarrow>
          (let upd1 = (case v1 of
                         Some v \<Rightarrow> \<not> py_eq (scan_interval_minutes (config s)) v
                       | None \<Rightarrow> False);
               s1 = (case v1 of
                       Some v \<Rightarrow>
                         if upd1 then s\<lparr>config := (config s)\<lparr>scan_interval_minutes := v\<rparr>\<rparr> else s
                     | None \<Rightarrow> s)
           in case server_value ''check_interval'' server_config of
                Inl e \<Rightarrow> (Inl e, s1)
              | Inr v2 \<Rightarrow>
                  (let upd2 = (case v2 of
                                 Some v \<Rightarrow> \<not> py_eq (check_interval (config s1)) v
                               | None \<Rightarrow> False);
                       s2 = (case v2 of
                               Some v \<Rightarrow>
                                 if upd2 then s1\<lparr>config := (config s1)\<lparr>check_interval := v\<rparr>\<rparr>
                                 else s1
                             | None \<Rightarrow> s1)
                   in if upd1 \<or> upd2 then (Inr (), do_call (SaveConfig (config s2)) s2)
                      else (Inr (), s2))))"

section \<open>Scan orchestrator (main.py)\<close>

text \<open>
  What the world gives to one scan attempt: the text of
  \<open>datetime.utcnow().isoformat()\<close>, what \<open>scan()\<close> of each scanner does (returns a
  payload or raises), and what happens to the request that sends the envelope.
\<close>

record attempt =
  timestamp :: string
  scan_results :: "string \<Rightarrow> exn + json"
  send_outcome :: outcome

text \<open>
  The loop of \<open>perform_scan\<close> over \<open>self.scanners.items()\<close>, filling
  \<open>scan_data['data']\<close>; it stops at the first scanner that raises.
\<close>

fun run_scanners ::
  "(string \<Rightarrow> exn + json) \<Rightarrow> string list \<Rightarrow> (string \<times> json) list \<Rightarrow> agent \<Rightarrow>
     (exn + (string \<times> json) list) \<times> agent" where
  "run_scanners res [] data s = (Inr data, s)"
| "run_scanners res (scanner_name # rest) data s =
     (let s1 = do_call (ScannerScan scanner_name)
                 (log_msg INFO [Lit ''Ejecutando scanner: '', Lit scanner_name] s)
      in case res scanner_name of
           Inl e \<Rightarrow> (Inl e, s1)
         | Inr scanner_data \<Rightarrow>
             run_scanners res rest (AList.update scanner_name scanner_data data)
               (log_msg INFO [Lit ''Scanner '', Lit scanner_name, Lit '' completado''] s1))"

text \<open>
  The handler of \<open>perform_scan\<close>: \<open>except Exception\<close> logs and raises again; anything
  else passes through.
\<close>

definition perform_scan_except :: "exn \<Rightarrow> agent \<Rightarrow> (exn + unit) \<times> agent" where
  "perform_scan_except e s =
     (if is_Exception e
      then (Inl e, log_msg ERROR [Lit ''Error durante el escaneo: '', Exc e] s)
      else (Inl e, s))"

text \<open>
  \<open>perform_scan\<close>. The pictographs that open the two printed lines are left out of the
  printed text.
\<close>

definition perform_scan :: "attempt \<Rightarrow> agent \<Rightarrow> (exn + unit) \<times> agent" where
  "perform_scan att s =
     (let s0 = log_msg INFO [Lit ''Iniciando escaneo completo del sistema''] s;
          scan_data = [(''timestamp'', JStr (timestamp att)),
                       (''machine_id'', JStr (machine_id (config s))),
                       (''manager_id'', JStr (manager_id (config s))),
                       (''scan_type'', JStr ''full''),
                       (''data'', JDict [])]
      in case run_scanners (scan_results att) (scanners s0) [] s0 of
           (Inl e, s1) \<Rightarrow> perform_scan_except e s1
         | (Inr data, s1) \<Rightarrow>
             (case send_scan_data (AList.update ''data'' (JDict data) scan_data) (send_outcome att)
                     (log_msg INFO [Lit ''Enviando datos a la API''] s1) of
                (Inl e, sent, s2) \<Rightarrow> perform_scan_except e s2
              | (Inr response, sent, s2) \<Rightarrow>
                  (case py_get response ''success'' JNull of
                     Inl e \<Rightarrow> perform_scan_except e s2
                   | Inr ok \<Rightarrow>
                       if truthy ok then
                         (let s3 = log_msg INFO [Lit ''Escaneo enviado exitosamente''] s2
                          in case py_contains ''scan_token'' response of
                               Inl e \<Rightarrow> perform_scan_except e s3
                             | Inr has_token \<Rightarrow>
                                 if has_token then
                                   (case py_subscript response ''scan_token'' of
                                      Inl e \<Rightarrow> perform_scan_except e s3
                                    | Inr token \<Rightarrow>
                                        (Inr (),
                                         do_call (Print [Lit ''Ver resultados en: '',
                                                         Lit (api_base_url (config s3)),
                                                         Lit ''/scan-result/'', Val token])
                                           (do_call (Print [Lit ''Escaneo completado!''])
                                             (log_msg INFO
                                                [Lit (''Token de visualizaci'' @ [CHR 0xF3] @ ''n: ''),
                                                 Val token] s3))))
                                 else (Inr (), s3))
                       else
                         (case py_get response ''error'' (JStr ''Error desconocido'') of
                            Inl e \<Rightarrow> perform_scan_except e s2
                          | Inr err \<Rightarrow>
                              (Inr (), log_msg ERROR [Lit ''Error al enviar escaneo: '', Val err] s2)))))"

text \<open>The handler of \<open>check_for_tasks\<close>: \<open>except Exception\<close> logs and goes on.\<close>

definition check_for_tasks_except :: "exn \<Rightarrow> agent \<Rightarrow> (exn + unit) \<times> agent" where
  "check_for_tasks_except e s =
     (if is_Exception e
      then (Inr (), log_msg ERROR [Lit ''Error al verificar tareas: '', Exc e] s)
      else (Inl e, s))"

text \<open>
  \<open>check_for_tasks\<close>, given the outcome of the task-check request and what the world gives
  to the scan attempt that a directive may ask for.
\<close>

definition check_for_tasks :: "outcome \<Rightarrow> attempt \<Rightarrow> agent \<Rightarrow> (exn + unit) \<times> agent" where
  "check_for_tasks oc att s =
     (case check_tasks oc s of
        (Inl e, s1) \<Rightarrow> check_for_tasks_except e s1
      | (Inr task_info, s1) \<Rightarrow>
          (case py_get task_info ''should_scan'' JNull of
             Inl e \<Rightarrow> check_for_tasks_except e s1
           | Inr flag \<Rightarrow>
               (case (if truthy flag
                      then perform_scan att
                             (log_msg INFO [Lit ''Tarea de escaneo solicitada por el servidor''] s1)
                      else (Inr (), s1)) of
                  (Inl e, s2) \<Rightarrow> check_for_tasks_except e s2
                | (Inr u, s2) \<Rightarrow>
                    (case py_contains ''config_updates'' task_info of
                       Inl e \<Rightarrow> check_for_tasks_except e s2
                     | Inr has_updates \<Rightarrow>
                         if has_updates then
                           (case py_subscript task_info ''config_updates'' of
                              Inl e \<Rightarrow> check_for_tasks_except e s2
                            | Inr updates \<Rightarrow>
                                (case update_from_server updates s2 of
                                   (Inl e, s3) \<Rightarrow> check_for_tasks_except e s3
                                 | (Inr u, s3) \<Rightarrow>
                                     (Inr (),
                                      log_msg INFO
                                        [Lit (''Configuraci'' @ [CHR 0xF3] @
                                              ''n actualizada desde el servidor'')] s3)))
                         else (Inr (), s2)))))"

text \<open>
  What the world gives to one iteration of the loop of \<open>run_continuous\<close>: the outcome of
  the task check, the scan attempt that a directive may ask for, the clock reading in
  \<open>should_scan\<close>, the scheduled scan attempt, the clock reading in
  \<open>mark_scan_completed\<close>, and what each of the two sleeps raises, if anything.
\<close>

record iter_input =
  tasks_outcome :: outcome
  task_attempt :: attempt
  now_should_scan :: time
  sched_attempt :: attempt
  now_completed :: time
  sleep_raises :: "exn option"
  cooldown_raises :: "exn option"

text \<open>
  How an iteration ends: the loop goes on, the loop is left by \<open>break\<close>, or an exception
  leaves \<open>run_continuous\<close>.
\<close>

datatype ctl = Continue | Break | Propagate exn

text \<open>
  The two handlers of the loop: \<open>except KeyboardInterrupt\<close> logs and breaks;
  \<open>except Exception\<close> logs and sleeps 60 seconds.
\<close>

definition loop_except :: "exn option \<Rightarrow> exn \<Rightarrow> agent \<Rightarrow> ctl \<times> agent" where
  "loop_except cooldown e s =
     (if e = KeyboardInterrupt
      then (Break, log_msg INFO [Lit ''Deteniendo agente por solicitud del usuario''] s)
      else (let s1 = do_call (Sleep (JInt 60))
                       (log_msg ERROR [Lit ''Error en el bucle principal: '', Exc e] s)
            in case cooldown of None \<Rightarrow> (Continue, s1) | Some e' \<Rightarrow> (Propagate e', s1)))"

text \<open>The scheduled part of the body: \<open>if should_scan(): perform_scan(); mark_scan_completed()\<close>.\<close>

definition scheduled_scan :: "iter_input \<Rightarrow> agent \<Rightarrow> (exn + unit) \<times> agent" where
  "scheduled_scan inp s =
     (case should_scan (now_should_scan inp) s of
        (due, s1) \<Rightarrow>
          if due then
            (case perform_scan (sched_attempt inp) s1 of
               (Inl e, s2) \<Rightarrow> (Inl e, s2)
             | (Inr u, s2) \<Rightarrow> mark_scan_completed (now_completed inp) s2)
          else (Inr (), s1))"

text \<open>The body of the \<open>while True\<close> loop of \<open>run_continuous\<close>.\<close>

definition loop_body :: "iter_input \<Rightarrow> agent \<Rightarrow> ctl \<times> agent" where
  "loop_body inp s =
     (case check_for_tasks (tasks_outcome inp) (task_attempt inp) s of
        (Inl e, s1) \<Rightarrow> loop_except (cooldown_raises inp) e s1
      | (Inr u, s1) \<Rightarrow>
          (case scheduled_scan inp s1 of
             (Inl e, s2) \<Rightarrow> loop_except (cooldown_raises inp) e s2
           | (Inr u, s2) \<Rightarrow>
               (let s3 = do_call (Sleep (check_interval (config s2))) s2
                in case sleep_raises inp of
                     None \<Rightarrow> (Continue, s3)
                   | Some e \<Rightarrow> loop_except (cooldown_raises inp) e s3)))"

text \<open>
  The loop, run on the inputs of finitely many iterations: it stops early when an iteration
  breaks or lets an exception out, and is still running (\<open>Continue\<close>) when the inputs are
  used up.
\<close>

fun continuous_loop :: "iter_input list \<Rightarrow> agent \<Rightarrow> ctl \<times> agent" where
  "continuous_loop [] s = (Continue, s)"
| "continuous_loop (inp # rest) s =
     (case loop_body inp s of
        (Continue, s') \<Rightarrow> continuous_loop rest s'
      | (Break, s') \<Rightarrow> (Break, s')
      | (Propagate e, s') \<Rightarrow> (Propagate e, s'))"

definition run_continuous :: "iter_input list \<Rightarrow> agent \<Rightarrow> ctl \<times> agent" where
  "run_continuous inps s = continuous_loop inps (log_msg INFO [Lit ''Iniciando modo continuo''] s)"

text \<open>Counting the calls to \<open>send_scan_data\<close> and to \<open>mark_scan_completed\<close>.\<close>

fun is_send :: "call \<Rightarrow> bool" where
  "is_send (SendScanData d) = True"
| "is_send _ = False"

definition sends :: "agent \<Rightarrow> nat" where
  "sends s = length (filter is_send (calls s))"

definition marks :: "agent \<Rightarrow> nat" where
  "marks s = count_list (calls s) MarkScanCompleted"



section \<open>Threat analyzer (api-server/app/services/threat_analyzer.py)\<close>

text \<open>
  A \<open>Threat\<close> as the analyzer builds it: the five attributes its constructor calls set.
  The description, an f-string, is kept as its parts.
\<close>

record threat =
  threat_machine_id :: string
  threat_type :: string
  description :: "fpart list"
  evidence :: json
  detected_at :: time

text \<open>
  The clock of one invocation: \<open>clk n\<close> is what the \<open>n\<close>-th coming call of
  \<open>datetime.utcnow()\<close> returns. A piece of the analyzer reads the clock and gives the
  threats it appends, in order, with the clock that is left, or the exception it raises.
\<close>

type_synonym clock = "nat \<Rightarrow> time"

type_synonym rule = "clock \<Rightarrow> exn + (threat list \<times> clock)"

text \<open>The clock after one reading.\<close>

definition tick :: "clock \<Rightarrow> clock" where
  "tick clk = (\<lambda>n. clk (Suc n))"

definition no_threat :: rule where
  "no_threat clk = Inr ([], clk)"

definition raises :: "exn \<Rightarrow> rule" where
  "raises e clk = Inl e"

text \<open>\<open>threats.append(Threat(..., detected_at=datetime.utcnow()))\<close>.\<close>

definition append_threat :: "string \<Rightarrow> string \<Rightarrow> fpart list \<Rightarrow> json \<Rightarrow> rule" where
  "append_threat mid ty desc ev clk =
     Inr ([\<lparr>threat_machine_id = mid, threat_type = ty, description = desc, evidence = ev,
            detected_at = clk 0\<rparr>],
          tick clk)"

text \<open>One piece after another; an exception in either ends both.\<close>

definition then_do :: "rule \<Rightarrow> rule \<Rightarrow> rule" where
  "then_do f g clk =
     (case f clk of
        Inl e \<Rightarrow> Inl e
      | Inr (ts, clk1) \<Rightarrow>
          (case g clk1 of
             Inl e \<Rightarrow> Inl e
           | Inr (ts', clk2) \<Rightarrow> Inr (ts @ ts', clk2)))"

text \<open>A \<open>for\<close> loop whose body appends threats.\<close>

fun for_each :: "('a \<Rightarrow> rule) \<Rightarrow> 'a list \<Rightarrow> rule" where
  "for_each body [] = no_threat"
| "for_each body (x # xs) = then_do (body x) (for_each body xs)"

text \<open>A piece that needs a value whose computation may raise.\<close>

definition with_arg :: "exn + 'a \<Rightarrow> ('a \<Rightarrow> rule) \<Rightarrow> rule" where
  "with_arg a f = (case a of Inl e \<Rightarrow> raises e | Inr v \<Rightarrow> f v)"

text \<open>
  \<open>str.lower()\<close> on the characters of this model: the capital letters \<open>A\<close> to \<open>Z\<close>
  and the capital letters of Latin-1 (192 to 222, but for the multiplication sign 215) move
  up by 32. Only a string has the method.
\<close>

definition lower_char :: "char \<Rightarrow> char" where
  "lower_char c =
     (let n = (of_char c :: nat)
      in if (65 \<le> n \<and> n \<le> 90) \<or> (192 \<le> n \<and> n \<le> 222 \<and> n \<noteq> 215)
         then char_of (n + 32) else c)"

definition str_lower :: "json \<Rightarrow> exn + string" where
  "str_lower v = (case v of JStr s \<Rightarrow> Inr (map lower_char s) | _ \<Rightarrow> Inl AttributeError)"

text \<open>
  What \<open>for x in v\<close> runs through: the elements of a list, the keys of a dictionary, the
  characters of a string; any other value raises \<open>TypeError\<close>.
\<close>

definition py_iter :: "json \<Rightarrow> exn + json list" where
  "py_iter v =
     (case v of
        JList xs \<Rightarrow> Inr xs
      | JDict kvs \<Rightarrow> Inr (map (\<lambda>kv. JStr (fst kv)) kvs)
      | JStr s \<Rightarrow> Inr (map (\<lambda>c. JStr [c]) s)
      | _ \<Rightarrow> Inl TypeError)"

text \<open>The three fixed lists of \<open>ThreatAnalyzer.__init__\<close>.\<close>

definition suspicious_ports :: "int list" where
  "suspicious_ports = [1337, 31337, 4444, 5555, 6666, 7777, 8888, 9999]"

definition malicious_processes :: "string list" where
  "malicious_processes =
     [''netcat'', ''nc'', ''mimikatz'', ''psexec'', ''wce'', ''fgdump'',
      ''pwdump'', ''gsecdump'', ''cachedump'', ''lsadump'']"

definition dangerous_extensions :: "string list" where
  "dangerous_extensions =
     [''.exe.pdf'', ''.pdf.exe'', ''.doc.exe'', ''.jpg.exe'',
      ''.png.exe'', ''.txt.exe'', ''.scr'', ''.pif'', ''.bat.exe'']"

text \<open>\<open>any(m in name for m in patterns)\<close>.\<close>

definition any_in :: "string list \<Rightarrow> string \<Rightarrow> bool" where
  "any_in patterns name = list_ex (\<lambda>m. py_in_str m name) patterns"

text \<open>The body of the loop of \<open>_analyze_open_ports\<close>, and the method.\<close>

definition analyze_port :: "string \<Rightarrow> json \<Rightarrow> rule" where
  "analyze_port mid port_info =
     with_arg (py_get port_info ''port'' JNull) (\<lambda>port.
     with_arg (py_get port_info ''process_name'' (JStr [])) (\<lambda>name.
     with_arg (str_lower name) (\<lambda>process_name.
       then_do
         (if list_ex (eq_int port) suspicious_ports
          then append_threat mid ''PUERTO_SOSPECHOSO''
                 [Lit ''Puerto sospechoso '', Val port, Lit '' abierto por '', Lit process_name]
                 port_info
          else no_threat)
         (if any_in malicious_processes process_name
          then append_threat mid ''PROCESO_MALICIOSO''
                 [Lit ''Proceso potencialmente malicioso detectado: '', Lit process_name]
                 port_info
          else no_threat))))"

definition analyze_open_ports :: "string \<Rightarrow> json \<Rightarrow> rule" where
  "analyze_open_ports mid open_ports =
     with_arg (py_iter open_ports) (for_each (analyze_port mid))"

text \<open>\<open>sum(1 for user in user_accounts if user.get("is_admin", False))\<close>.\<close>

fun count_admins :: "json list \<Rightarrow> exn + int" where
  "count_admins [] = Inr 0"
| "count_admins (user # users) =
     (case py_get user ''is_admin'' (JBool False) of
        Inl e \<Rightarrow> Inl e
      | Inr flag \<Rightarrow>
          (case count_admins users of
             Inl e \<Rightarrow> Inl e
           | Inr n \<Rightarrow> Inr ((if truthy flag then 1 else 0) + n)))"

definition analyze_user :: "string \<Rightarrow> json \<Rightarrow> rule" where
  "analyze_user mid user =
     with_arg (py_get user ''password_required'' (JBool True)) (\<lambda>required.
       if \<not> truthy required
       then with_arg (py_get user ''username'' JNull) (\<lambda>username.
              append_threat mid ''CUENTA_SIN_PASSWORD''
                [Lit (''Cuenta sin contrase'' @ [CHR 0xF1] @ ''a: ''), Val username] user)
       else no_threat)"

definition analyze_user_accounts :: "string \<Rightarrow> json \<Rightarrow> rule" where
  "analyze_user_accounts mid user_accounts =
     with_arg (py_iter user_accounts) (\<lambda>users.
     with_arg (count_admins users) (\<lambda>admin_count.
       then_do
         (if admin_count > 3
          then append_threat mid ''EXCESO_ADMINISTRADORES''
                 [Lit ''Demasiadas cuentas de administrador detectadas: '', Num admin_count]
                 (JDict [(''admin_count'', JInt admin_count), (''users'', user_accounts)])
          else no_threat)
         (for_each (analyze_user mid) users)))"

definition analyze_hosts_file :: "string \<Rightarrow> json \<Rightarrow> rule" where
  "analyze_hosts_file mid hosts_data =
     with_arg (py_get hosts_data ''suspicious_entries'' (JList [])) (\<lambda>suspicious_entries.
     with_arg (py_iter suspicious_entries)
       (for_each (\<lambda>entry.
          append_threat mid ''HOSTS_MODIFICADO''
            [Lit ''Entrada sospechosa en archivo hosts: '', Val entry] hosts_data)))"

text \<open>\<open>[event for event in security_events if event.get("event_id") == 4625]\<close>.\<close>

fun failed_logins :: "json list \<Rightarrow> exn + json list" where
  "failed_logins [] = Inr []"
| "failed_logins (event # events) =
     (case py_get event ''event_id'' JNull of
        Inl e \<Rightarrow> Inl e
      | Inr event_id \<Rightarrow>
          (case failed_logins events of
             Inl e \<Rightarrow> Inl e
           | Inr rest \<Rightarrow> Inr (if eq_int event_id 4625 then event # rest else rest)))"

definition analyze_security_events :: "string \<Rightarrow> json \<Rightarrow> rule" where
  "analyze_security_events mid security_events =
     with_arg (py_iter security_events) (\<lambda>events.
     with_arg (failed_logins events) (\<lambda>failed.
       if length failed > 10
       then append_threat mid ''MULTIPLES_INTENTOS_LOGIN''
              [Lit (''M'' @ [CHR 0xFA] @ ''ltiples intentos de login fallidos detectados: ''),
               Num (int (length failed))]
              (JDict [(''failed_login_count'', JInt (int (length failed))),
                      (''events'', JList (take 5 failed))])
       else no_threat))"

definition analyze_file :: "string \<Rightarrow> json \<Rightarrow> rule" where
  "analyze_file mid file_info =
     with_arg (py_get file_info ''name'' (JStr [])) (\<lambda>name.
     with_arg (str_lower name) (\<lambda>file_name.
       if any_in dangerous_extensions file_name
       then append_threat mid ''ARCHIVO_SOSPECHOSO''
              [Lit (''Archivo con extensi'' @ [CHR 0xF3] @ ''n sospechosa: ''), Lit file_name]
              file_info
       else no_threat))"

definition analyze_recent_files :: "string \<Rightarrow> json \<Rightarrow> rule" where
  "analyze_recent_files mid recent_files =
     with_arg (py_iter recent_files) (for_each (analyze_file mid))"

definition analyze_task :: "string \<Rightarrow> json \<Rightarrow> rule" where
  "analyze_task mid task =
     with_arg (py_get task ''name'' (JStr [])) (\<lambda>name.
     with_arg (str_lower name) (\<lambda>task_name.
     with_arg (py_get task ''command'' (JStr [])) (\<lambda>cmd.
     with_arg (str_lower cmd) (\<lambda>command.
       if any_in malicious_processes command
       then append_threat mid ''TAREA_MALICIOSA''
              [Lit ''Tarea programada sospechosa: '', Lit task_name] task
       else no_threat))))"

definition analyze_scheduled_tasks :: "string \<Rightarrow> json \<Rightarrow> rule" where
  "analyze_scheduled_tasks mid scheduled_tasks =
     with_arg (py_iter scheduled_tasks) (for_each (analyze_task mid))"

definition suspicious_paths :: "string list" where
  "suspicious_paths =
     [''temp'', ''tmp'', ''appdata'' @ [CHR 0x5C] @ ''local'' @ [CHR 0x5C] @ ''temp'',
      ''programdata'']"

definition analyze_environment_variables :: "string \<Rightarrow> json \<Rightarrow> rule" where
  "analyze_environment_variables mid env_vars =
     with_arg (py_get env_vars ''PATH'' (JStr [])) (\<lambda>path_var.
       for_each (\<lambda>suspicious_path.
         with_arg (str_lower path_var) (\<lambda>lowered.
           if py_in_str suspicious_path lowered
           then append_threat mid ''PATH_MODIFICADO''
                  [Lit ''PATH contiene ruta sospechosa: '', Lit suspicious_path]
                  (JDict [(''path'', path_var), (''suspicious_path'', JStr suspicious_path)])
           else no_threat))
         suspicious_paths)"

text \<open>\<open>scan_data.get(section, {}).get(key, dflt)\<close>, the argument of each method call.\<close>

definition section_get :: "json \<Rightarrow> string \<Rightarrow> string \<Rightarrow> json \<Rightarrow> exn + json" where
  "section_get scan_data sect k dflt =
     (case py_get scan_data sect (JDict []) of
        Inl e \<Rightarrow> Inl e
      | Inr d \<Rightarrow> py_get d k dflt)"

text \<open>The six method calls that follow the open-ports one in \<open>analyze_scan_data\<close>.\<close>

definition later_rules :: "string \<Rightarrow> json \<Rightarrow> rule" where
  "later_rules mid scan_data =
     then_do (with_arg (section_get scan_data ''security_scan'' ''user_accounts'' (JList []))
                (analyze_user_accounts mid))
    (then_do (with_arg (section_get scan_data ''security_scan'' ''hosts_file'' (JDict []))
                (analyze_hosts_file mid))
    (then_do (with_arg (section_get scan_data ''security_scan'' ''security_events'' (JList []))
                (analyze_security_events mid))
    (then_do (with_arg (section_get scan_data ''activity_scan'' ''recent_files'' (JList []))
                (analyze_recent_files mid))
    (then_do (with_arg (section_get scan_data ''system_health'' ''scheduled_tasks'' (JList []))
                (analyze_scheduled_tasks mid))
             (with_arg (section_get scan_data ''system_health'' ''environment_variables''
                          (JDict []))
                (analyze_environment_variables mid))))))"

definition analyze_rules :: "string \<Rightarrow> json \<Rightarrow> rule" where
  "analyze_rules mid scan_data =
     then_do (with_arg (section_get scan_data ''security_scan'' ''open_ports'' (JList []))
                (analyze_open_ports mid))
             (later_rules mid scan_data)"

text \<open>What a piece returns to its caller: the threats, or the exception raised.\<close>

definition result_threats :: "exn + (threat list \<times> clock) \<Rightarrow> exn + threat list" where
  "result_threats r = (case r of Inl e \<Rightarrow> Inl e | Inr (threats, clk) \<Rightarrow> Inr threats)"

text \<open>\<open>analyze_scan_data\<close>, on the clock of the invocation.\<close>

definition analyze_scan_data :: "string \<Rightarrow> json \<Rightarrow> clock \<Rightarrow> exn + threat list" where
  "analyze_scan_data mid scan_data clk = result_threats (analyze_rules mid scan_data clk)"

text \<open>A threat without its \<open>detected_at\<close>, and a result without them.\<close>

definition undated :: "threat \<Rightarrow> string \<times> string \<times> fpart list \<times> json" where
  "undated t = (threat_machine_id t, threat_type t, description t, evidence t)"

definition undated_result ::
  "exn + (threat list \<times> clock) \<Rightarrow> exn + (string \<times> string \<times> fpart list \<times> json) list" where
  "undated_result r = (case r of Inl e \<Rightarrow> Inl e | Inr (ts, clk) \<Rightarrow> Inr (map undated ts))"

definition undated_threats ::
  "exn + threat list \<Rightarrow> exn + (string \<times> string \<times> fpart list \<times> json) list" where
  "undated_threats r = (case r of Inl e \<Rightarrow> Inl e | Inr ts \<Rightarrow> Inr (map undated ts))"

text \<open>How many threats of a type a list holds.\<close>

definition count_type :: "string \<Rightarrow> threat list \<Rightarrow> nat" where
  "count_type ty ts = length (filter (\<lambda>t. threat_type t = ty) ts)"

section \<open>Relations used in the proofs\<close>

text \<open>
  Two properties of a piece of the analyzer, used in the proofs: but for \<open>detected_at\<close>,
  what it returns does not depend on the clock; and every threat it appends has a type that
  satisfies \<open>P\<close>.
\<close>

definition clock_free :: "rule \<Rightarrow> bool" where
  "clock_free f = (\<forall>c1 c2. undated_result (f c1) = undated_result (f c2))"

definition emits_only :: "(string \<Rightarrow> bool) \<Rightarrow> rule \<Rightarrow> bool" where
  "emits_only P f = (\<forall>c ts c'. f c = Inr (ts, c') \<longrightarrow> list_all (\<lambda>t. P (threat_type t)) ts)"

text \<open>
  Two relations between a state and a later one, used in the proofs: the configuration, the
  scheduler's instants, the loaded scanners and the count of \<open>mark_scan_completed\<close>
  calls are the same and no log record is lost; and the same without the configuration.
\<close>

definition same_sched :: "agent \<Rightarrow> agent \<Rightarrow> bool" where
  "same_sched s s' =
     (config s' = config s \<and> last_scan_time s' = last_scan_time s \<and>
      next_scan_time s' = next_scan_time s \<and> scanners s' = scanners s \<and>
      marks s' = marks s \<and> set (log s) \<subseteq> set (log s'))"

definition same_times :: "agent \<Rightarrow> agent \<Rightarrow> bool" where
  "same_times s s' =
     (last_scan_time s' = last_scan_time s \<and> next_scan_time s' = next_scan_time s \<and>
      scanners s' = scanners s \<and> marks s' = marks s \<and> set (log s) \<subseteq> set (log s'))"

section \<open>Example inputs\<close>

text \<open>
  A text of a thousand opening brackets, on which \<open>json.loads\<close> raises
  \<open>RecursionError\<close>, and the response that carries it with status 200.
\<close>

definition deep_text :: string where
  "deep_text = replicate 1000 (CHR ''['')"

definition deep_response :: outcome where
  "deep_response =
     Response 200 deep_text
       (LoadsRaised (''maximum recursion depth exceeded while decoding a JSON array '' @
                     ''from a unicode string''))"

text \<open>An envelope with the keys \<open>perform_scan\<close> gives it, before any scanner has run.\<close>

definition envelope0 :: "(string \<times> json) list" where
  "envelope0 =
     [(''timestamp'', JStr ''2025-01-01T00:00:00''), (''machine_id'', JStr ''pc-1''),
      (''manager_id'', JStr ''m-1''), (''scan_type'', JStr ''full''), (''data'', JDict [])]"

text \<open>A configuration used in the examples below.\<close>

definition cfg0 :: config where
  "cfg0 = \<lparr>api_base_url = ''http://localhost:8000/api/v1'', manager_id = ''m-1'',
           machine_id = ''pc-1'', machine_name = ''PC'',
           scan_interval_minutes = JInt 60, check_interval = JInt 300\<rparr>"

definition agent0 :: agent where
  "agent0 = \<lparr>config = cfg0, last_scan_time = None, next_scan_time = None,
             scanners = [''system'', ''network''], log = [], calls = []\<rparr>"

text \<open>
  The instant 2025-01-01T00:00:00, and an agent whose scan interval is 4200000000 minutes
  (some 7985 years) and whose scheduler was initialized at that instant.
\<close>

definition instant_2025 :: time where
  "instant_2025 = 63871286400000000"

definition agent_long_interval :: agent where
  "agent_long_interval =
     scheduler_init instant_2025
       (agent0\<lparr>config := cfg0\<lparr>scan_interval_minutes := JInt 4200000000\<rparr>\<rparr>)"











text \<open>
  Two clocks, and payloads with one open port: port 31337 held by \<open>svc.exe\<close>, and port
  8080 held by \<open>netcat.exe\<close>.
\<close>

definition clock_a :: clock where
  "clock_a n = 1000 + int n"

definition clock_b :: clock where
  "clock_b n = 2000 + int n"

definition payload_port :: json where
  "payload_port =
     JDict [(''security_scan'',
             JDict [(''open_ports'',
                     JList [JDict [(''port'', JInt 31337),
                                   (''process_name'', JStr ''svc.exe'')]])])]"

definition payload_netcat :: json where
  "payload_netcat =
     JDict [(''security_scan'',
             JDict [(''open_ports'',
                     JList [JDict [(''port'', JInt 8080),
                                   (''process_name'', JStr ''netcat.exe'')]])])]"

section \<open>Properties of the scheduler\<close>








lemma sched_invariant_init: "sched_invariant False t0 (scheduler_init t0 s)"
  by (simp add: sched_invariant_def scheduler_init_def calculate_next_scan_def log_msg_def)

lemma sched_invariant_step:
  assumes "op_returns opn now s"
  shows "sched_invariant (opn = ForceNext) now (apply_op opn now s)"
proof (cases opn)
  case MarkCompleted
  with assms show ?thesis
    by (auto simp: sched_invariant_def apply_op_def op_returns_def mark_scan_completed_def
        calculate_next_scan_def datetime_add_def log_msg_def do_call_def
        split: sum.splits if_splits)
next
  case ForceNext
  then show ?thesis
    by (simp add: sched_invariant_def apply_op_def force_next_scan_def log_msg_def)
next
  case (UpdateInterval n)
  with assms show ?thesis
    by (auto simp: sched_invariant_def apply_op_def op_returns_def update_interval_def Let_def
        calculate_next_scan_def datetime_add_def log_msg_def
        split: sum.splits option.splits if_splits)
qed

lemma sched_invariant_run:
  "(r \<longrightarrow> sched_invariant f t s) \<Longrightarrow> final_returned r ops s \<Longrightarrow>
   sched_invariant (final_forced f ops) (final_time t ops) (run_ops ops s)"
proof (induction ops arbitrary: r f t s)
  case Nil
  then show ?case by simp
next
  case (Cons a ops)
  obtain opn now where a: "a = (opn, now)" by (cases a)
  have "op_returns opn now s \<longrightarrow> sched_invariant (opn = ForceNext) now (apply_op opn now s)"
    using sched_invariant_step by blast
  moreover have "final_returned (op_returns opn now s) ops (apply_op opn now s)"
    using Cons.prems(2) a by simp
  ultimately show ?case
    using Cons.IH a by simp
qed

lemma raising_keeps_next_scan_time:
  assumes "\<not> op_returns opn now u"
  shows "next_scan_time (apply_op opn now u) = next_scan_time u"
proof (cases opn)
  case MarkCompleted
  with assms show ?thesis
    by (auto simp: apply_op_def op_returns_def mark_scan_completed_def
        calculate_next_scan_def log_msg_def do_call_def
        split: sum.splits if_splits option.splits)
next
  case ForceNext
  with assms show ?thesis by (simp add: op_returns_def)
next
  case (UpdateInterval n)
  with assms show ?thesis
    by (auto simp: apply_op_def op_returns_def update_interval_def Let_def
        calculate_next_scan_def log_msg_def
        split: sum.splits option.splits if_splits)
qed

text \<open>
  C2, as the code has it. From an initialization at instant \<open>t0\<close>, after any sequence of
  \<open>mark_scan_completed\<close>, \<open>force_next_scan\<close> and \<open>update_interval\<close> calls of which the
  latest returned: when the latest call was \<open>force_next_scan\<close>, the next scan is the
  instant of that call, whatever the last scan; otherwise the next scan is the last scan plus
  the interval when there is a last scan, and the instant of the latest call (of the
  initialization when there was none) when there is no last scan. A call that raises leaves
  the next scan as it was.
\<close>

theorem scheduler_invariant_reachable:
  "(final_returned True ops (scheduler_init t0 s) \<longrightarrow>
      sched_invariant (final_forced False ops) (final_time t0 ops)
        (run_ops ops (scheduler_init t0 s))) \<and>
   (\<not> op_returns opn now u \<longrightarrow>
      next_scan_time (apply_op opn now u) = next_scan_time u)"
  using sched_invariant_run [OF _ _, of True False t0 "scheduler_init t0 s" ops]
    sched_invariant_init [of t0 s] raising_keeps_next_scan_time [of opn now u]
  by blast

theorem scheduler_invariant_reachable_witness:
  "sched_invariant False 9
     (run_ops [(MarkCompleted, 0), (ForceNext, 5), (UpdateInterval 1, 9)]
        (scheduler_init 0 agent0)) \<and>
   next_scan_time
     (run_ops [(MarkCompleted, 0), (ForceNext, 5), (UpdateInterval 1, 9)]
        (scheduler_init 0 agent0)) = Some 60000000 \<and>
   next_scan_time (apply_op MarkCompleted (instant_2025 + 5) agent_long_interval) =
     next_scan_time agent_long_interval"
proof -
  let ?ops = "[(MarkCompleted, 0), (ForceNext, 5), (UpdateInterval 1, 9)]"
  have r: "final_returned True ?ops (scheduler_init 0 agent0)" by code_simp
  have n: "next_scan_time (run_ops ?ops (scheduler_init 0 agent0)) = Some 60000000"
    by code_simp
  have x: "\<not> op_returns MarkCompleted (instant_2025 + 5) agent_long_interval" by code_simp
  have f: "final_forced False ?ops = False" "final_time 0 ?ops = 9" by simp_all
  note t = scheduler_invariant_reachable
    [where ops = ?ops and ?t0.0 = 0 and s = agent0 and opn = MarkCompleted
       and now = "instant_2025 + 5" and u = agent_long_interval]
  have a: "sched_invariant (final_forced False ?ops) (final_time 0 ?ops)
             (run_ops ?ops (scheduler_init 0 agent0))"
    using t r by blast
  have b: "next_scan_time (apply_op MarkCompleted (instant_2025 + 5) agent_long_interval) =
             next_scan_time agent_long_interval"
    using t x by blast
  show ?thesis
    using a b n f by simp
qed

text \<open>
  The invariant as the specification words it fails after \<open>force_next_scan\<close>: a scan
  completed at instant 0 with an interval of 60 minutes, then forced at instant 5, leaves
  the next scan at 5 and not at the last scan plus the interval.
\<close>

theorem spec_invariant_counterexample:
  "\<not> spec_invariant 5 (run_ops [(MarkCompleted, 0), (ForceNext, 5)] (scheduler_init 0 agent0))"
  by code_simp

section \<open>Properties of the remote client\<close>


lemma make_request_value:
  "fst (make_request method endpoint data oc s) = fst (make_request method' endpoint' data' oc s')"
  by (cases oc) (auto simp: make_request_def Let_def split: loads.splits)

text \<open>
  C7, as the code has it. For every method, path and body, and for every response and every
  failure that is an \<open>Exception\<close>, \<open>_make_request\<close> returns a value and raises nothing.
  A status other than 200 gives a dictionary with \<open>success\<close> false and the status under
  \<open>status_code\<close>; a client error or any other exception, also one that \<open>json.loads\<close>
  raises other than \<open>JSONDecodeError\<close>, gives a dictionary with \<open>success\<close> false and no
  \<open>status_code\<close>; a 200 on whose text \<open>json.loads\<close> raises \<open>JSONDecodeError\<close> gives a
  dictionary with \<open>success\<close> true, the text under \<open>data\<close> and no \<open>status_code\<close>; a 200
  on whose text \<open>json.loads\<close> returns gives the parsed body itself, whatever it holds.
\<close>

theorem make_request_classified:
  assumes "oc \<noteq> Interrupted"
  shows "\<exists>v. fst (make_request method endpoint data oc s) = Inr v \<and>
     (case oc of
        Response status txt parsed \<Rightarrow>
          if status = 200
          then (case parsed of
                  Loaded body \<Rightarrow> v = body
                | JSONDecodeError \<Rightarrow>
                    entry ''success'' v = Some (JBool True) \<and>
                    entry ''data'' v = Some (JStr txt) \<and>
                    entry ''status_code'' v = None
                | LoadsRaised m \<Rightarrow>
                    entry ''success'' v = Some (JBool False) \<and>
                    entry ''status_code'' v = None)
          else entry ''success'' v = Some (JBool False) \<and>
               entry ''status_code'' v = Some (JInt status)
      | ClientFailure m \<Rightarrow>
          entry ''success'' v = Some (JBool False) \<and> entry ''status_code'' v = None
      | OtherFailure m \<Rightarrow>
          entry ''success'' v = Some (JBool False) \<and> entry ''status_code'' v = None
      | Interrupted \<Rightarrow> False)"
  using assms
  by (cases oc) (auto simp: make_request_def Let_def entry_def split: loads.splits)

theorem make_request_classified_witness:
  "\<exists>v. fst (make_request ''GET'' ''/agent/check-task'' None
               (Response 500 ''boom'' JSONDecodeError) agent0) = Inr v \<and>
       entry ''success'' v = Some (JBool False) \<and> entry ''status_code'' v = Some (JInt 500)"
proof -
  have n: "Response 500 ''boom'' JSONDecodeError \<noteq> Interrupted" by simp
  show ?thesis
    using make_request_classified
      [OF n, of "''GET''" "''/agent/check-task''" None agent0]
    by simp
qed

text \<open>
  The statement that every result is tagged fails on a response with status 200 whose text
  is a JSON object without a \<open>success\<close> entry, such as the one the server's handler of
  \<open>/agent/check-task\<close> builds: the parsed body is returned as it is.
\<close>

theorem make_request_untagged_counterexample:
  "fst (make_request ''GET'' ''/agent/check-task'' None
          (Response 200 check_task_text (Loaded check_task_body)) agent0) = Inr check_task_body \<and>
   \<not> tagged check_task_body"
  by (simp add: make_request_def Let_def tagged_def entry_def check_task_body_def)




text \<open>
  C9, as the code has it. Whatever the network does, \<open>send_scan_data\<close> leaves the envelope
  updated in place with the \<open>manager_id\<close>, \<open>machine_id\<close> and \<open>machine_name\<close> of the
  configuration: these three keys hold the configuration's values, and every other key holds
  what it held before.
\<close>

theorem send_scan_data_envelope:
  "fst (snd (send_scan_data scan_data oc s)) =
     AList.update ''machine_name'' (JStr (machine_name (config s)))
       (AList.update ''machine_id'' (JStr (machine_id (config s)))
         (AList.update ''manager_id'' (JStr (manager_id (config s))) scan_data)) \<and>
   map_of (fst (snd (send_scan_data scan_data oc s))) k =
     (if k = ''machine_name'' then Some (JStr (machine_name (config s)))
      else if k = ''machine_id'' then Some (JStr (machine_id (config s)))
      else if k = ''manager_id'' then Some (JStr (manager_id (config s)))
      else map_of scan_data k)"
  by (auto simp: send_scan_data_def Let_def update_conv' split: prod.splits sum.splits)

text \<open>
  The statement that the envelope is unchanged fails on an envelope as \<open>perform_scan\<close>
  builds it: it has no \<open>machine_name\<close> key before the call and has one after.
\<close>

theorem send_scan_data_counterexample:
  "map_of envelope0 ''machine_name'' = None \<and>
   map_of (fst (snd (send_scan_data envelope0
                  (Response 200 ''{}'' (Loaded (JDict []))) agent0))) ''machine_name''
     = Some (JStr ''PC'')"
  by (simp add: send_scan_data_def make_request_def Let_def envelope0_def agent0_def cfg0_def
      py_get_def)

lemma send_scan_data_log:
  assumes "fst (make_request ''POST'' ''/scans'' None oc s0) = Inr (JDict kvs)"
  shows "fst (send_scan_data scan_data oc s) = Inr (JDict kvs) \<and>
         (\<exists>request_log.
            log (snd (snd (send_scan_data scan_data oc s))) =
              log s @ [(INFO, [Lit ''Enviando datos de escaneo al servidor''])] @ request_log @
              [if (case map_of kvs ''success'' of Some ok \<Rightarrow> truthy ok | None \<Rightarrow> False)
               then (INFO, [Lit ''Datos de escaneo enviados exitosamente''])
               else (ERROR, [Lit ''Error al enviar datos: '',
                             Val (case map_of kvs ''error'' of Some e \<Rightarrow> e | None \<Rightarrow> JNull)])])"
proof -
  let ?s1 = "log_msg INFO [Lit ''Enviando datos de escaneo al servidor'']
                 (do_call (SendScanData scan_data) s)"
  let ?sd = "AList.update ''machine_name'' (JStr (machine_name (config s)))
              (AList.update ''machine_id'' (JStr (machine_id (config s)))
                (AList.update ''manager_id'' (JStr (manager_id (config s))) scan_data))"
  obtain r2 s2 where mr: "make_request ''POST'' ''/scans'' (Some (JDict ?sd)) oc ?s1 = (r2, s2)"
    by (cases "make_request ''POST'' ''/scans'' (Some (JDict ?sd)) oc ?s1")
  have r2: "r2 = Inr (JDict kvs)"
    using assms mr make_request_value [of "''POST''" "''/scans''" None oc s0
        "''POST''" "''/scans''" "Some (JDict ?sd)" ?s1]
    by simp
  have "\<exists>request_log. log s2 = log ?s1 @ request_log"
    using mr by (cases oc) (auto simp: make_request_def Let_def log_msg_def do_call_def
        split: loads.splits if_splits)
  then obtain request_log where l: "log s2 = log ?s1 @ request_log" by blast
  have l1: "log ?s1 = log s @ [(INFO, [Lit ''Enviando datos de escaneo al servidor''])]"
    by (simp add: log_msg_def do_call_def)
  show ?thesis
    using mr r2 l l1
    by (auto simp: send_scan_data_def Let_def py_get_def log_msg_def split: option.splits)
qed

text \<open>
  C10, as the code has it. On a response with status 200 on whose text \<open>json.loads\<close>
  returns, \<open>_make_request\<close> returns the parsed body as it is. \<open>send_scan_data\<close> then
  raises \<open>AttributeError\<close> when the body is not a dictionary, and otherwise returns the
  body and logs success exactly when the body has a truthy \<open>success\<close> entry of its own
  (an error otherwise). On a 200 on whose text \<open>json.loads\<close> raises \<open>JSONDecodeError\<close>,
  the result is a dictionary with \<open>success\<close> true and \<open>send_scan_data\<close> logs success;
  on a 200 on whose text \<open>json.loads\<close> raises anything else, the result is a dictionary
  with \<open>success\<close> false.
\<close>

theorem make_request_200_verbatim:
  "fst (make_request method endpoint data (Response 200 txt (Loaded body)) s) = Inr body \<and>
   fst (send_scan_data scan_data (Response 200 txt (Loaded body)) s) =
     (case body of JDict kvs \<Rightarrow> Inr body | _ \<Rightarrow> Inl AttributeError) \<and>
   log (snd (snd (send_scan_data scan_data (Response 200 txt (Loaded (JDict kvs))) s))) =
     log s @ [(INFO, [Lit ''Enviando datos de escaneo al servidor'']),
              if (case map_of kvs ''success'' of Some ok \<Rightarrow> truthy ok | None \<Rightarrow> False)
              then (INFO, [Lit ''Datos de escaneo enviados exitosamente''])
              else (ERROR, [Lit ''Error al enviar datos: '',
                            Val (case map_of kvs ''error'' of Some e \<Rightarrow> e | None \<Rightarrow> JNull)])] \<and>
   fst (make_request method endpoint data (Response 200 txt JSONDecodeError) s) =
     Inr (JDict [(''success'', JBool True), (''data'', JStr txt)]) \<and>
   log (snd (snd (send_scan_data scan_data (Response 200 txt JSONDecodeError) s))) =
     log s @ [(INFO, [Lit ''Enviando datos de escaneo al servidor'']),
              (INFO, [Lit ''Datos de escaneo enviados exitosamente''])] \<and>
   fst (make_request method endpoint data (Response 200 txt (LoadsRaised m)) s) =
     Inr (JDict [(''success'', JBool False), (''error'', JStr (''Error inesperado: '' @ m))])"
  by (auto simp: make_request_def send_scan_data_def Let_def py_get_def log_msg_def do_call_def
      split: json.splits option.splits)

text \<open>
  The statement that a 200 with a body that is not JSON is always reported as success fails
  on a text of a thousand opening brackets: \<open>json.loads\<close> raises \<open>RecursionError\<close>, the
  handler for any exception answers, and the result has \<open>success\<close> false.
\<close>

theorem make_request_deep_text_counterexample:
  "(\<exists>v. fst (make_request ''POST'' ''/scans'' None deep_response agent0) = Inr v \<and>
        entry ''success'' v = Some (JBool False)) \<and>
   \<not> success_check
       (JDict [(''success'', JBool False),
               (''error'', JStr (''Error inesperado: maximum recursion depth exceeded '' @
                                 ''while decoding a JSON array from a unicode string''))])"
  by (simp add: make_request_def Let_def deep_response_def entry_def success_check_def py_get_def)

section \<open>Properties of the orchestrator\<close>

lemma same_sched_refl [simp]: "same_sched s s"
  by (simp add: same_sched_def)


lemma same_sched_log_msg [simp]: "same_sched s s' \<Longrightarrow> same_sched s (log_msg l m s')"
  by (auto simp: same_sched_def log_msg_def marks_def)

lemma sends_log_msg [simp]: "sends (log_msg l m s) = sends s"
  by (simp add: sends_def log_msg_def)

lemma marks_log_msg [simp]: "marks (log_msg l m s) = marks s"
  by (simp add: marks_def log_msg_def)

lemma log_log_msg [simp]: "log (log_msg l m s) = log s @ [(l, m)]"
  by (simp add: log_msg_def)

lemma fields_log_msg [simp]:
  "config (log_msg l m s) = config s" "last_scan_time (log_msg l m s) = last_scan_time s"
  "next_scan_time (log_msg l m s) = next_scan_time s" "scanners (log_msg l m s) = scanners s"
  "calls (log_msg l m s) = calls s"
  by (simp_all add: log_msg_def)

lemma fields_do_call [simp]:
  "config (do_call c s) = config s" "last_scan_time (do_call c s) = last_scan_time s"
  "next_scan_time (do_call c s) = next_scan_time s" "scanners (do_call c s) = scanners s"
  "log (do_call c s) = log s" "calls (do_call c s) = calls s @ [c]"
  by (simp_all add: do_call_def)

lemma sends_do_call [simp]: "sends (do_call c s) = (if is_send c then Suc (sends s) else sends s)"
  by (simp add: sends_def do_call_def)

lemma marks_do_call [simp]:
  "marks (do_call c s) = (if c = MarkScanCompleted then Suc (marks s) else marks s)"
  by (simp add: marks_def do_call_def)

lemma same_sched_do_call [simp]:
  "c \<noteq> MarkScanCompleted \<Longrightarrow> same_sched s s' \<Longrightarrow> same_sched s (do_call c s')"
  by (auto simp: same_sched_def)









lemma same_times_refl [simp]: "same_times s s"
  by (simp add: same_times_def)


lemma same_times_log_msg [simp]: "same_times s s' \<Longrightarrow> same_times s (log_msg l m s')"
  by (auto simp: same_times_def)
























section \<open>Properties of the threat analyzer\<close>

lemma clock_free_no_threat [intro!]: "clock_free no_threat"
  by (simp add: clock_free_def no_threat_def undated_result_def)

lemma clock_free_raises [intro!]: "clock_free (raises e)"
  by (simp add: clock_free_def raises_def undated_result_def)

lemma clock_free_append_threat [intro!]: "clock_free (append_threat mid ty desc ev)"
  by (simp add: clock_free_def append_threat_def undated_result_def undated_def)

lemma clock_free_then_do [intro!]:
  assumes "clock_free f" and "clock_free g"
  shows "clock_free (then_do f g)"
  unfolding clock_free_def
proof (intro allI)
  fix c1 c2
  have f: "undated_result (f c1) = undated_result (f c2)"
    using assms(1) by (simp add: clock_free_def)
  show "undated_result (then_do f g c1) = undated_result (then_do f g c2)"
  proof (cases "f c1")
    case (Inl e)
    then have "f c2 = Inl e"
      using f by (cases "f c2") (auto simp: undated_result_def)
    with Inl show ?thesis by (simp add: then_do_def)
  next
    case (Inr p)
    obtain ts1 k1 where p: "p = (ts1, k1)" by (cases p)
    obtain ts2 k2 where q: "f c2 = Inr (ts2, k2)" and m: "map undated ts1 = map undated ts2"
      using f Inr p by (cases "f c2") (auto simp: undated_result_def)
    have g: "undated_result (g k1) = undated_result (g k2)"
      using assms(2) by (simp add: clock_free_def)
    show ?thesis
      using Inr p q m g
      by (cases "g k1"; cases "g k2") (auto simp: then_do_def undated_result_def)
  qed
qed

lemma clock_free_for_each [intro!]:
  assumes "\<And>x. clock_free (body x)"
  shows "clock_free (for_each body xs)"
  by (induction xs) (auto intro: assms)

lemma clock_free_with_arg [intro!]:
  assumes "\<And>v. clock_free (f v)"
  shows "clock_free (with_arg a f)"
  by (cases a) (auto simp: with_arg_def intro: assms)

lemma clock_free_if [intro!]:
  "clock_free f \<Longrightarrow> clock_free g \<Longrightarrow> clock_free (if b then f else g)"
  by simp

lemma clock_free_analyze_rules: "clock_free (analyze_rules mid scan_data)"
  unfolding analyze_rules_def later_rules_def analyze_open_ports_def analyze_port_def
    analyze_user_accounts_def analyze_user_def analyze_hosts_file_def
    analyze_security_events_def analyze_recent_files_def analyze_file_def
    analyze_scheduled_tasks_def analyze_task_def analyze_environment_variables_def
  by (intro clock_free_then_do clock_free_with_arg clock_free_for_each clock_free_if
      clock_free_append_threat clock_free_no_threat)

text \<open>
  C5, as the code has it. For every machine identifier and every payload, two invocations
  of \<open>analyze_scan_data\<close>, each on its own clock, raise the same exception or return
  sequences of the same length whose threats agree, in the same order, on the machine
  identifier, the type, the description and the evidence. The \<open>detected_at\<close> of a threat
  is the clock reading at its creation and is not part of the agreement.
\<close>

theorem analyze_deterministic_but_for_detected_at:
  "undated_threats (analyze_scan_data mid scan_data clk1) =
   undated_threats (analyze_scan_data mid scan_data clk2)"
proof -
  have "undated_result (analyze_rules mid scan_data clk1) =
        undated_result (analyze_rules mid scan_data clk2)"
    using clock_free_analyze_rules by (simp add: clock_free_def)
  then show ?thesis
    by (cases "analyze_rules mid scan_data clk1"; cases "analyze_rules mid scan_data clk2")
      (auto simp: analyze_scan_data_def result_threats_def undated_threats_def
        undated_result_def)
qed

text \<open>
  The statement that the two sequences are equal in every field fails on a payload with one
  suspicious port, analysed at two different instants: the threats differ in
  \<open>detected_at\<close>.
\<close>

theorem analyze_detected_at_counterexample:
  "analyze_scan_data ''pc-1'' payload_port clock_a \<noteq>
   analyze_scan_data ''pc-1'' payload_port clock_b"
  by code_simp

lemma emits_only_no_threat [intro!]: "emits_only P no_threat"
  by (simp add: emits_only_def no_threat_def)

lemma emits_only_raises [intro!]: "emits_only P (raises e)"
  by (simp add: emits_only_def raises_def)

lemma emits_only_append_threat: "P ty \<Longrightarrow> emits_only P (append_threat mid ty desc ev)"
  by (auto simp: emits_only_def append_threat_def)

lemma emits_only_then_do [intro!]:
  assumes "emits_only P f" and "emits_only P g"
  shows "emits_only P (then_do f g)"
  using assms
  by (auto simp: emits_only_def then_do_def split: sum.splits prod.splits)

lemma emits_only_for_each [intro!]:
  assumes "\<And>x. emits_only P (body x)"
  shows "emits_only P (for_each body xs)"
  by (induction xs) (auto intro: assms)

lemma emits_only_with_arg [intro!]:
  assumes "\<And>v. emits_only P (f v)"
  shows "emits_only P (with_arg a f)"
  by (cases a) (auto simp: with_arg_def intro: assms)

lemma emits_only_if [intro!]:
  "emits_only P f \<Longrightarrow> emits_only P g \<Longrightarrow> emits_only P (if b then f else g)"
  by simp

lemma later_rules_types:
  "emits_only (\<lambda>ty. ty \<noteq> ''PUERTO_SOSPECHOSO'' \<and> ty \<noteq> ''PROCESO_MALICIOSO'')
     (later_rules mid scan_data)"
  unfolding later_rules_def analyze_user_accounts_def analyze_user_def analyze_hosts_file_def
    analyze_security_events_def analyze_recent_files_def analyze_file_def
    analyze_scheduled_tasks_def analyze_task_def analyze_environment_variables_def
  by (intro emits_only_then_do emits_only_with_arg emits_only_for_each emits_only_if
      emits_only_append_threat emits_only_no_threat) simp_all

lemma later_rules_counts:
  assumes "result_threats (later_rules mid scan_data c) = Inr others"
  shows "count_type ''PUERTO_SOSPECHOSO'' others = 0 \<and>
         count_type ''PROCESO_MALICIOSO'' others = 0"
proof -
  obtain c' where "later_rules mid scan_data c = Inr (others, c')"
    using assms by (cases "later_rules mid scan_data c") (auto simp: result_threats_def)
  then have "list_all (\<lambda>t. threat_type t \<noteq> ''PUERTO_SOSPECHOSO'' \<and>
                            threat_type t \<noteq> ''PROCESO_MALICIOSO'') others"
    using later_rules_types [of mid scan_data] by (auto simp: emits_only_def)
  then show ?thesis
    by (auto simp: count_type_def list_all_iff filter_empty_conv)
qed

lemma lower_svc: "map lower_char ''svc.exe'' = ''svc.exe''"
  by code_simp

lemma lower_netcat: "map lower_char ''netcat.exe'' = ''netcat.exe''"
  by code_simp

lemma str_lower_svc: "str_lower (JStr ''svc.exe'') = Inr ''svc.exe''"
  using lower_svc by (simp add: str_lower_def)

lemma str_lower_netcat: "str_lower (JStr ''netcat.exe'') = Inr ''netcat.exe''"
  using lower_netcat by (simp add: str_lower_def)

lemma svc_not_malicious: "\<not> any_in malicious_processes ''svc.exe''"
  by code_simp

lemma netcat_malicious: "any_in malicious_processes ''netcat.exe''"
  by code_simp

lemma port_31337_suspicious: "list_ex (eq_int (JInt 31337)) suspicious_ports"
  by code_simp

lemma open_ports_suspicious_port:
  assumes "py_get port_info ''port'' JNull = Inr (JInt 31337)"
      and "py_get port_info ''process_name'' (JStr []) = Inr (JStr ''svc.exe'')"
  shows "analyze_open_ports mid (JList [port_info]) clk =
           Inr ([\<lparr>threat_machine_id = mid, threat_type = ''PUERTO_SOSPECHOSO'',
                  description = [Lit ''Puerto sospechoso '', Val (JInt 31337),
                                 Lit '' abierto por '', Lit ''svc.exe''],
                  evidence = port_info, detected_at = clk 0\<rparr>], tick clk)"
  using assms
  by (simp add: analyze_open_ports_def analyze_port_def with_arg_def py_iter_def
      str_lower_svc svc_not_malicious port_31337_suspicious then_do_def append_threat_def
      no_threat_def)

lemma open_ports_malicious_process:
  assumes "py_get port_info ''port'' JNull = Inr port"
      and "\<not> list_ex (eq_int port) suspicious_ports"
      and "py_get port_info ''process_name'' (JStr []) = Inr (JStr ''netcat.exe'')"
  shows "analyze_open_ports mid (JList [port_info]) clk =
           Inr ([\<lparr>threat_machine_id = mid, threat_type = ''PROCESO_MALICIOSO'',
                  description = [Lit ''Proceso potencialmente malicioso detectado: '',
                                 Lit ''netcat.exe''],
                  evidence = port_info, detected_at = clk 0\<rparr>], tick clk)"
  using assms
  by (simp add: analyze_open_ports_def analyze_port_def with_arg_def py_iter_def
      str_lower_netcat netcat_malicious then_do_def append_threat_def no_threat_def)

lemma analyze_after_one_threat:
  assumes "section_get scan_data ''security_scan'' ''open_ports'' (JList []) = Inr ports"
      and "analyze_open_ports mid ports clk = Inr ([t], tick clk)"
      and "result_threats (later_rules mid scan_data (tick clk)) = Inr others"
  shows "analyze_scan_data mid scan_data clk = Inr (t # others)"
proof -
  obtain c' where "later_rules mid scan_data (tick clk) = Inr (others, c')"
    using assms(3)
    by (cases "later_rules mid scan_data (tick clk)") (auto simp: result_threats_def)
  then show ?thesis
    using assms(1,2)
    by (simp add: analyze_scan_data_def analyze_rules_def then_do_def with_arg_def
        result_threats_def)
qed

text \<open>
  C6. Take a payload whose open-ports list has exactly one entry. If the entry has port
  31337 and process \<open>svc.exe\<close>, then, whenever the six later rules return on the rest
  of the payload, \<open>analyze_scan_data\<close> returns threats of which exactly one has the
  suspicious-port type (the string \<open>PUERTO_SOSPECHOSO\<close> in the code) and none has the
  malicious-process type (\<open>PROCESO_MALICIOSO\<close>). If the entry has a port outside the
  suspicious ports and process \<open>netcat.exe\<close>, then, under the same condition, exactly
  one threat has the malicious-process type and none the suspicious-port type.
\<close>

theorem port_rule_counts:
  "(section_get scan_data ''security_scan'' ''open_ports'' (JList []) = Inr (JList [port_info]) \<and>
    py_get port_info ''port'' JNull = Inr (JInt 31337) \<and>
    py_get port_info ''process_name'' (JStr []) = Inr (JStr ''svc.exe'') \<and>
    result_threats (later_rules mid scan_data (tick clk)) = Inr others \<longrightarrow>
      (\<exists>ts. analyze_scan_data mid scan_data clk = Inr ts \<and>
            count_type ''PUERTO_SOSPECHOSO'' ts = 1 \<and>
            count_type ''PROCESO_MALICIOSO'' ts = 0)) \<and>
   (section_get scan_data' ''security_scan'' ''open_ports'' (JList []) = Inr (JList [port_info']) \<and>
    py_get port_info' ''port'' JNull = Inr port \<and>
    \<not> list_ex (eq_int port) suspicious_ports \<and>
    py_get port_info' ''process_name'' (JStr []) = Inr (JStr ''netcat.exe'') \<and>
    result_threats (later_rules mid' scan_data' (tick clk')) = Inr others' \<longrightarrow>
      (\<exists>ts. analyze_scan_data mid' scan_data' clk' = Inr ts \<and>
            count_type ''PROCESO_MALICIOSO'' ts = 1 \<and>
            count_type ''PUERTO_SOSPECHOSO'' ts = 0))"
proof (intro conjI impI)
  assume h: "section_get scan_data ''security_scan'' ''open_ports'' (JList [])
               = Inr (JList [port_info]) \<and>
    py_get port_info ''port'' JNull = Inr (JInt 31337) \<and>
    py_get port_info ''process_name'' (JStr []) = Inr (JStr ''svc.exe'') \<and>
    result_threats (later_rules mid scan_data (tick clk)) = Inr others"
  then have h1: "section_get scan_data ''security_scan'' ''open_ports'' (JList [])
               = Inr (JList [port_info])"
    and h2: "py_get port_info ''port'' JNull = Inr (JInt 31337)"
    and h3: "py_get port_info ''process_name'' (JStr []) = Inr (JStr ''svc.exe'')"
    and h4: "result_threats (later_rules mid scan_data (tick clk)) = Inr others"
    by blast+
  let ?t = "\<lparr>threat_machine_id = mid, threat_type = ''PUERTO_SOSPECHOSO'',
             description = [Lit ''Puerto sospechoso '', Val (JInt 31337),
                            Lit '' abierto por '', Lit ''svc.exe''],
             evidence = port_info, detected_at = clk 0\<rparr>"
  have a: "analyze_scan_data mid scan_data clk = Inr (?t # others)"
    using h1 open_ports_suspicious_port [OF h2 h3] h4 by (rule analyze_after_one_threat)
  have "count_type ''PUERTO_SOSPECHOSO'' (?t # others) = 1 \<and>
        count_type ''PROCESO_MALICIOSO'' (?t # others) = 0"
    using later_rules_counts [OF h4] by (simp add: count_type_def)
  with a show "\<exists>ts. analyze_scan_data mid scan_data clk = Inr ts \<and>
            count_type ''PUERTO_SOSPECHOSO'' ts = 1 \<and>
            count_type ''PROCESO_MALICIOSO'' ts = 0"
    by blast
next
  assume h: "section_get scan_data' ''security_scan'' ''open_ports'' (JList [])
               = Inr (JList [port_info']) \<and>
    py_get port_info' ''port'' JNull = Inr port \<and>
    \<not> list_ex (eq_int port) suspicious_ports \<and>
    py_get port_info' ''process_name'' (JStr []) = Inr (JStr ''netcat.exe'') \<and>
    result_threats (later_rules mid' scan_data' (tick clk')) = Inr others'"
  then have h1: "section_get scan_data' ''security_scan'' ''open_ports'' (JList [])
               = Inr (JList [port_info'])"
    and h2: "py_get port_info' ''port'' JNull = Inr port"
    and h3: "\<not> list_ex (eq_int port) suspicious_ports"
    and h4: "py_get port_info' ''process_name'' (JStr []) = Inr (JStr ''netcat.exe'')"
    and h5: "result_threats (later_rules mid' scan_data' (tick clk')) = Inr others'"
    by blast+
  let ?t = "\<lparr>threat_machine_id = mid', threat_type = ''PROCESO_MALICIOSO'',
             description = [Lit ''Proceso potencialmente malicioso detectado: '',
                            Lit ''netcat.exe''],
             evidence = port_info', detected_at = clk' 0\<rparr>"
  have a: "analyze_scan_data mid' scan_data' clk' = Inr (?t # others')"
    using h1 open_ports_malicious_process [OF h2 h3 h4] h5 by (rule analyze_after_one_threat)
  have "count_type ''PROCESO_MALICIOSO'' (?t # others') = 1 \<and>
        count_type ''PUERTO_SOSPECHOSO'' (?t # others') = 0"
    using later_rules_counts [OF h5] by (simp add: count_type_def)
  with a show "\<exists>ts. analyze_scan_data mid' scan_data' clk' = Inr ts \<and>
            count_type ''PROCESO_MALICIOSO'' ts = 1 \<and>
            count_type ''PUERTO_SOSPECHOSO'' ts = 0"
    by blast
qed

theorem port_rule_counts_witness:
  "(\<exists>ts. analyze_scan_data ''pc-1'' payload_port clock_a = Inr ts \<and>
         count_type ''PUERTO_SOSPECHOSO'' ts = 1 \<and> count_type ''PROCESO_MALICIOSO'' ts = 0) \<and>
   (\<exists>ts. analyze_scan_data ''pc-1'' payload_netcat clock_b = Inr ts \<and>
         count_type ''PROCESO_MALICIOSO'' ts = 1 \<and> count_type ''PUERTO_SOSPECHOSO'' ts = 0)"
proof -
  let ?p = "JDict [(''port'', JInt 31337), (''process_name'', JStr ''svc.exe'')]"
  let ?q = "JDict [(''port'', JInt 8080), (''process_name'', JStr ''netcat.exe'')]"
  have a1: "section_get payload_port ''security_scan'' ''open_ports'' (JList [])
              = Inr (JList [?p])" by code_simp
  have a2: "py_get ?p ''port'' JNull = Inr (JInt 31337)" by code_simp
  have a3: "py_get ?p ''process_name'' (JStr []) = Inr (JStr ''svc.exe'')" by code_simp
  have a4: "result_threats (later_rules ''pc-1'' payload_port (tick clock_a)) = Inr []"
    by code_simp
  have b1: "section_get payload_netcat ''security_scan'' ''open_ports'' (JList [])
              = Inr (JList [?q])" by code_simp
  have b2: "py_get ?q ''port'' JNull = Inr (JInt 8080)" by code_simp
  have b3: "\<not> list_ex (eq_int (JInt 8080)) suspicious_ports" by code_simp
  have b4: "py_get ?q ''process_name'' (JStr []) = Inr (JStr ''netcat.exe'')" by code_simp
  have b5: "result_threats (later_rules ''pc-1'' payload_netcat (tick clock_b)) = Inr []"
    by code_simp
  note t = port_rule_counts
    [where scan_data = payload_port and port_info = ?p and mid = "''pc-1''" and clk = clock_a
       and others = "[]" and scan_data' = payload_netcat and port_info' = ?q
       and port = "JInt 8080" and mid' = "''pc-1''" and clk' = clock_b and others' = "[]"]
  show ?thesis
    using t a1 a2 a3 a4 b1 b2 b3 b4 b5 by blast
qed

end
